theory Spec2Isabelle
  imports Main
begin

section \<open>The Hypriot provisioner of libmachine/provision/hypriot.go\<close>

text \<open>
  The provisioner drives a remote host through an SSH command channel and a handful of
  collaborators of the provision package. The model is a state-passing one: a state holds
  the provisioner struct, the remote world (an abstract type \<open>'w\<close>) and the list of the
  calls issued so far, in order. A Go \<open>error\<close> result is an \<open>error option\<close>
  (\<open>None\<close> is \<open>nil\<close>); a \<open>(value, error)\<close> pair is a sum with \<open>Inl\<close> for the error.
\<close>

subsection \<open>Data\<close>

datatype error = Error string | Timeout

text \<open>pkgaction.PackageAction and serviceaction.ServiceAction, enums of the two action packages.\<close>

datatype PackageAction = Install | Remove | Upgrade

datatype ServiceAction = Restart | Start | Stop

text \<open>Modelled from the spec: serviceaction.ServiceAction.String, the textual command verb of
  a service action (the serviceaction package is outside the file).\<close>

fun ServiceAction_String :: "ServiceAction \<Rightarrow> string" where
  "ServiceAction_String Restart = ''restart''"
| "ServiceAction_String Start = ''start''"
| "ServiceAction_String Stop = ''stop''"

text \<open>The option structs, with the fields that hypriot.go reads or writes. The membership
  parameters of swarm.Options are kept as one opaque field.\<close>

record OsRelease =
  ID :: string

record SwarmOptions =
  Image :: string
  Membership :: "string list"

record AuthOptions =
  CaCertRemotePath :: string
  ServerCertRemotePath :: string
  ServerKeyRemotePath :: string

record EngineOptions =
  StorageDriver :: string
  Labels :: "string list"
  InsecureRegistry :: "string list"
  RegistryMirror :: "string list"
  ArbitraryFlags :: "string list"

text \<open>drivers.Driver is an interface; the provisioner uses two of its getters, whose
  answers are the two fields here.\<close>

record Driver =
  DriverName :: string
  GetMachineName :: string

text \<open>GenericProvisioner, embedded in HypriotProvisioner. The SSHCommander field is the
  channel to the remote host and lives in the environment below. The declaration of the
  struct is outside the file; OsReleaseInfo is kept as a struct value, of which the file
  reads the ID.\<close>

record provisioner =
  DockerOptionsDir :: string
  DaemonOptionsFile :: string
  OsReleaseID :: string
  Packages :: "string list"
  Driver :: Driver
  OsReleaseInfo :: OsRelease
  SwarmOptions :: SwarmOptions
  AuthOptions :: AuthOptions
  EngineOptions :: EngineOptions

record DockerOptions =
  DockerEngineOptions :: string
  EngineOptionsPath :: string

subsection \<open>The remote host and the collaborators\<close>

text \<open>
  Every call that leaves hypriot.go is recorded: the SSH commands with their command line,
  the collaborators of the provision package with the arguments the file passes.
\<close>

datatype call =
    CallSSHCommand string
  | CallSetHostname string
  | CallMakeDockerOptionsDir
  | CallSetRemoteAuthOptions
  | CallConfigureAuth
  | CallConfigureSwarm SwarmOptions AuthOptions

text \<open>
  The environment gives the behaviour of what is outside the file. The SSH channel acts on
  the remote world only. The collaborators receive the provisioner pointer, so they may
  read and update the struct as well as the world. \<open>wait_attempts\<close> is the number of
  probes that mcnutils.WaitFor makes before it gives up.
\<close>

record 'w env =
  ssh_run :: "string \<Rightarrow> 'w \<Rightarrow> (error + string) \<times> 'w"
  set_hostname :: "string \<Rightarrow> provisioner \<Rightarrow> 'w \<Rightarrow> error option \<times> provisioner \<times> 'w"
  make_docker_options_dir :: "provisioner \<Rightarrow> 'w \<Rightarrow> error option \<times> provisioner \<times> 'w"
  set_remote_auth_options :: "provisioner \<Rightarrow> 'w \<Rightarrow> AuthOptions \<times> provisioner \<times> 'w"
  configure_auth :: "provisioner \<Rightarrow> 'w \<Rightarrow> error option \<times> provisioner \<times> 'w"
  configure_swarm ::
    "SwarmOptions \<Rightarrow> AuthOptions \<Rightarrow> provisioner \<Rightarrow> 'w \<Rightarrow> error option \<times> provisioner \<times> 'w"
  wait_attempts :: nat

record 'w pstate =
  prov :: provisioner
  world :: 'w
  trace :: "call list"

definition SSHCommand :: "'w env \<Rightarrow> string \<Rightarrow> 'w pstate \<Rightarrow> (error + string) \<times> 'w pstate" where
  "SSHCommand env command s =
     (case ssh_run env command (world s) of
        (r, w) \<Rightarrow> (r, s\<lparr>world := w, trace := trace s @ [CallSSHCommand command]\<rparr>))"

definition collaborator ::
  "call \<Rightarrow> (provisioner \<Rightarrow> 'w \<Rightarrow> 'a \<times> provisioner \<times> 'w) \<Rightarrow> 'w pstate \<Rightarrow> 'a \<times> 'w pstate" where
  "collaborator c f s =
     (case f (prov s) (world s) of
        (r, p, w) \<Rightarrow> (r, s\<lparr>prov := p, world := w, trace := trace s @ [c]\<rparr>))"

definition SetHostname :: "'w env \<Rightarrow> string \<Rightarrow> 'w pstate \<Rightarrow> error option \<times> 'w pstate" where
  "SetHostname env hostname = collaborator (CallSetHostname hostname) (set_hostname env hostname)"

definition makeDockerOptionsDir :: "'w env \<Rightarrow> 'w pstate \<Rightarrow> error option \<times> 'w pstate" where
  "makeDockerOptionsDir env = collaborator CallMakeDockerOptionsDir (make_docker_options_dir env)"

definition setRemoteAuthOptions :: "'w env \<Rightarrow> 'w pstate \<Rightarrow> AuthOptions \<times> 'w pstate" where
  "setRemoteAuthOptions env = collaborator CallSetRemoteAuthOptions (set_remote_auth_options env)"

definition ConfigureAuth :: "'w env \<Rightarrow> 'w pstate \<Rightarrow> error option \<times> 'w pstate" where
  "ConfigureAuth env = collaborator CallConfigureAuth (configure_auth env)"

definition configureSwarm ::
  "'w env \<Rightarrow> SwarmOptions \<Rightarrow> AuthOptions \<Rightarrow> 'w pstate \<Rightarrow> error option \<times> 'w pstate" where
  "configureSwarm env swarmOptions authOptions =
     collaborator (CallConfigureSwarm swarmOptions authOptions)
       (configure_swarm env swarmOptions authOptions)"

subsection \<open>Construction and detection\<close>

text \<open>NewHypriotProvisioner fills the five fields of its struct literal; the others are
  empty until SetOsReleaseInfo and Provision store them.\<close>

definition NewHypriotProvisioner :: "Driver \<Rightarrow> provisioner" where
  "NewHypriotProvisioner d =
     \<lparr>DockerOptionsDir = ''/etc/docker'',
      DaemonOptionsFile = ''/etc/default/docker'',
      OsReleaseID = ''raspbian'',
      Packages = [],
      Driver = d,
      OsReleaseInfo = \<lparr>ID = ''''\<rparr>,
      SwarmOptions = \<lparr>Image = '''', Membership = []\<rparr>,
      AuthOptions = \<lparr>CaCertRemotePath = '''', ServerCertRemotePath = '''',
        ServerKeyRemotePath = ''''\<rparr>,
      EngineOptions = \<lparr>StorageDriver = '''', Labels = [], InsecureRegistry = [],
        RegistryMirror = [], ArbitraryFlags = []\<rparr>\<rparr>"

definition CompatibleWithHost :: "'w env \<Rightarrow> 'w pstate \<Rightarrow> bool \<times> 'w pstate" where
  "CompatibleWithHost env s =
     (case SSHCommand env ''cat /etc/hypriot_release'' s of
        (Inl err, s1) \<Rightarrow> (False, s1)
      | (Inr out, s1) \<Rightarrow> (ID (OsReleaseInfo (prov s1)) = OsReleaseID (prov s1), s1))"

subsection \<open>Service and Package\<close>

definition Service :: "'w env \<Rightarrow> string \<Rightarrow> ServiceAction \<Rightarrow> 'w pstate \<Rightarrow> error option \<times> 'w pstate" where
  "Service env name action s =
     (let command = ''sudo service '' @ name @ '' '' @ ServiceAction_String action in
      case SSHCommand env command s of
        (Inl err, s1) \<Rightarrow> (Some err, s1)
      | (Inr out, s1) \<Rightarrow> (None, s1))"

definition Package :: "'w env \<Rightarrow> string \<Rightarrow> PackageAction \<Rightarrow> 'w pstate \<Rightarrow> error option \<times> 'w pstate" where
  "Package env name0 action s =
     (let packageAction =
            (case action of Install \<Rightarrow> ''install'' | Remove \<Rightarrow> ''remove'' | Upgrade \<Rightarrow> ''install'');
          updateMetadata = (case action of Install \<Rightarrow> True | Remove \<Rightarrow> False | Upgrade \<Rightarrow> True);
          name = (if name0 = ''docker'' then ''docker-hypriot'' else name0);
          command = ''DEBIAN_FRONTEND=noninteractive sudo -E apt-get '' @ packageAction @ '' -y '' @ name;
          run = (\<lambda>s1. case SSHCommand env command s1 of
                         (Inl err, s2) \<Rightarrow> (Some err, s2)
                       | (Inr out, s2) \<Rightarrow> (None, s2))
      in if updateMetadata
         then (case SSHCommand env ''sudo -E apt-get update'' s of
                 (Inl err, s1) \<Rightarrow> (Some err, s1)
               | (Inr out, s1) \<Rightarrow> run s1)
         else run s)"

subsection \<open>Probes and the single-command steps\<close>

definition dockerDaemonResponding :: "'w env \<Rightarrow> 'w pstate \<Rightarrow> bool \<times> 'w pstate" where
  "dockerDaemonResponding env s =
     (case SSHCommand env ''sudo docker version'' s of
        (Inl err, s1) \<Rightarrow> (False, s1)
      | (Inr out, s1) \<Rightarrow> (True, s1))"

definition dockerDaemonInstalled :: "'w env \<Rightarrow> 'w pstate \<Rightarrow> bool \<times> 'w pstate" where
  "dockerDaemonInstalled env s =
     (case SSHCommand env ''type docker'' s of
        (Inl err, s1) \<Rightarrow> (False, s1)
      | (Inr out, s1) \<Rightarrow> (True, s1))"

definition dockerDaemonRunning :: "'w env \<Rightarrow> 'w pstate \<Rightarrow> bool \<times> 'w pstate" where
  "dockerDaemonRunning env s =
     (case SSHCommand env ''sudo service docker status'' s of
        (Inl err, s1) \<Rightarrow> (False, s1)
      | (Inr out, s1) \<Rightarrow> (True, s1))"

definition setHostnameHypriot :: "'w env \<Rightarrow> string \<Rightarrow> 'w pstate \<Rightarrow> error option \<times> 'w pstate" where
  "setHostnameHypriot env hostname s =
     (case SSHCommand env
        (''if [ -f /boot/occidentalis.txt ]; then sudo sed -i 's/^hostname.*=.*/hostname=''
          @ hostname @ ''/g' /boot/occidentalis.txt; fi'') s of
        (Inl err, s1) \<Rightarrow> (Some err, s1)
      | (Inr out, s1) \<Rightarrow> (None, s1))"

definition setHypriotAptRepo :: "'w env \<Rightarrow> 'w pstate \<Rightarrow> error option \<times> 'w pstate" where
  "setHypriotAptRepo env s =
     (case SSHCommand env
        (''if [ ! -f /etc/apt/sources.list.d/hypriot.list ] || grep -q repository.hypriot.com /etc/apt/sources.list.d/hypriot.list; then (curl https://packagecloud.io/gpg.key | sudo apt-key add -); echo 'deb https://packagecloud.io/Hypriot/Schatzkiste/debian/ wheezy main' | sudo tee /etc/apt/sources.list.d/hypriot.list; fi'') s of
        (Inl err, s1) \<Rightarrow> (Some err, s1)
      | (Inr out, s1) \<Rightarrow> (None, s1))"

text \<open>Modelled from the spec: mcnutils.WaitFor, the readiness poller (section 4.5), which
  calls the probe until it answers true or the budget of attempts is used up, and then
  fails with a timeout. The pause between two probes is not modelled.\<close>

fun WaitFor :: "nat \<Rightarrow> ('s \<Rightarrow> bool \<times> 's) \<Rightarrow> 's \<Rightarrow> error option \<times> 's" where
  "WaitFor 0 f s = (Some Timeout, s)"
| "WaitFor (Suc n) f s =
     (case f s of
        (True, s1) \<Rightarrow> (None, s1)
      | (False, s1) \<Rightarrow> WaitFor n f s1)"

subsection \<open>Provision\<close>

text \<open>The loop over provisioner.Packages: the first failing install returns its error.\<close>

fun install_packages :: "'w env \<Rightarrow> string list \<Rightarrow> 'w pstate \<Rightarrow> error option \<times> 'w pstate" where
  "install_packages env [] s = (None, s)"
| "install_packages env (pkg # pkgs) s =
     (case Package env pkg Install s of
        (Some err, s1) \<Rightarrow> (Some err, s1)
      | (None, s1) \<Rightarrow> install_packages env pkgs s1)"

text \<open>Lines 149 to 155: the three option structs are stored in the provisioner and an
  empty storage driver becomes overlay.\<close>

definition store_options ::
  "SwarmOptions \<Rightarrow> AuthOptions \<Rightarrow> EngineOptions \<Rightarrow> provisioner \<Rightarrow> provisioner" where
  "store_options swarmOptions authOptions engineOptions p =
     (let p1 = p\<lparr>SwarmOptions := swarmOptions, AuthOptions := authOptions,
                 EngineOptions := engineOptions\<rparr>
      in if StorageDriver (EngineOptions p1) = []
         then p1\<lparr>EngineOptions := (EngineOptions p1)\<lparr>StorageDriver := ''overlay''\<rparr>\<rparr>
         else p1)"

text \<open>Provision, statement by statement. The log lines and the two second pause before
  the swarm step have no counterpart in the model.\<close>

definition Provision ::
  "'w env \<Rightarrow> SwarmOptions \<Rightarrow> AuthOptions \<Rightarrow> EngineOptions \<Rightarrow> 'w pstate \<Rightarrow> error option \<times> 'w pstate" where
  "Provision env swarmOptions authOptions engineOptions s =
     (let s0 = s\<lparr>prov := store_options swarmOptions authOptions engineOptions (prov s)\<rparr> in
      (case SetHostname env (GetMachineName (Driver (prov s0))) s0 of
        (Some err, s1) \<Rightarrow> (Some err, s1)
      | (None, s1) \<Rightarrow>
      (case setHostnameHypriot env (GetMachineName (Driver (prov s1))) s1 of
        (Some err, s2) \<Rightarrow> (Some err, s2)
      | (None, s2) \<Rightarrow>
      (case Package env ''apt-transport-https'' Install s2 of
        (Some err, s3) \<Rightarrow> (Some err, s3)
      | (None, s3) \<Rightarrow>
      (case setHypriotAptRepo env s3 of
        (Some err, s4) \<Rightarrow> (Some err, s4)
      | (None, s4) \<Rightarrow>
      (case dockerDaemonInstalled env s4 of
        (installed, s5) \<Rightarrow>
      (let s6 = (if \<not> installed
                 then s5\<lparr>prov := (prov s5)\<lparr>Packages := Packages (prov s5) @ [''docker'']\<rparr>\<rparr>
                 else s5) in
      (case install_packages env (Packages (prov s6)) s6 of
        (Some err, s7) \<Rightarrow> (Some err, s7)
      | (None, s7) \<Rightarrow>
      (case dockerDaemonRunning env s7 of
        (running, s8) \<Rightarrow>
      (case (if \<not> running then Service env ''docker'' Start s8 else (None, s8)) of
        (Some err, s9) \<Rightarrow> (Some err, s9)
      | (None, s9) \<Rightarrow>
      (case WaitFor (wait_attempts env) (dockerDaemonResponding env) s9 of
        (Some err, s10) \<Rightarrow> (Some err, s10)
      | (None, s10) \<Rightarrow>
      (case makeDockerOptionsDir env s10 of
        (Some err, s11) \<Rightarrow> (Some err, s11)
      | (None, s11) \<Rightarrow>
      (case setRemoteAuthOptions env s11 of
        (remoteAuth, s12) \<Rightarrow>
      (let s13 = s12\<lparr>prov := (prov s12)\<lparr>AuthOptions := remoteAuth\<rparr>\<rparr> in
      (case ConfigureAuth env s13 of
        (Some err, s14) \<Rightarrow> (Some err, s14)
      | (None, s14) \<Rightarrow>
      (let swarmOptions1 = (if Image swarmOptions = ''swarm:latest''
                            then swarmOptions\<lparr>Image := ''hypriot/rpi-swarm:latest''\<rparr>
                            else swarmOptions) in
      (case configureSwarm env swarmOptions1 (AuthOptions (prov s14)) s14 of
        (Some err, s15) \<Rightarrow> (Some err, s15)
      | (None, s15) \<Rightarrow> (None, s15))))))))))))))))))"

subsection \<open>The template library\<close>

text \<open>
  GenerateDockerOptions renders its options through Go's text/template, a library outside
  the repository. Its two entry points are parameters of the model: Parse, which may
  refuse the template text, and Execute, which writes to the buffer and may stop with an
  error after part of the output has been written. \<open>text_template\<close> further down
  implements the part of the library that the engine-config template uses.
\<close>

datatype tvalue =
    VInt int
  | VString string
  | VSlice "tvalue list"
  | VStruct "(string \<times> tvalue) list"

record 't template_engine =
  Parse :: "string \<Rightarrow> error + 't"
  Execute :: "'t \<Rightarrow> tvalue \<Rightarrow> string \<Rightarrow> string \<times> error option"

datatype node =
    TextNode string
  | FieldNode "string list"
  | RangeNode "string list" "node list"

datatype item = ItemText string | ItemAction string

datatype token = TokText string | TokField "string list" | TokRange "string list" | TokEnd

text \<open>The template language is modelled as far as the engine-config template goes: text,
  field chains and range over a slice. Any other action makes Parse fail.

  The lexer cuts the text at the action delimiters. The first argument tells whether
  the position is inside an action, the second collects the characters read, in reverse.\<close>

definition text_item :: "string \<Rightarrow> item list" where
  "text_item acc = (if acc = [] then [] else [ItemText (rev acc)])"

fun lex :: "bool \<Rightarrow> string \<Rightarrow> string \<Rightarrow> error + item list" where
  "lex inside acc [] =
     (if inside then Inl (Error ''unclosed action'') else Inr (text_item acc))"
| "lex inside acc [c] = lex inside (c # acc) []"
| "lex inside acc (c # d # cs) =
     (if \<not> inside \<and> c = CHR ''{'' \<and> d = CHR ''{''
      then (case lex True [] cs of Inl err \<Rightarrow> Inl err | Inr its \<Rightarrow> Inr (text_item acc @ its))
      else if inside \<and> c = CHR ''}'' \<and> d = CHR ''}''
      then (case lex False [] cs of Inl err \<Rightarrow> Inl err | Inr its \<Rightarrow> Inr (ItemAction (rev acc) # its))
      else lex inside (c # acc) (d # cs))"

definition trim :: "string \<Rightarrow> string" where
  "trim s = rev (dropWhile (\<lambda>c. c = CHR '' '') (rev (dropWhile (\<lambda>c. c = CHR '' '') s)))"

fun split_dot :: "string \<Rightarrow> string \<Rightarrow> string list" where
  "split_dot acc [] = [rev acc]"
| "split_dot acc (c # cs) =
     (if c = CHR ''.'' then rev acc # split_dot [] cs else split_dot (c # acc) cs)"

definition is_ident_char :: "char \<Rightarrow> bool" where
  "is_ident_char c =
     (let n = (of_char c :: nat)
      in (65 \<le> n \<and> n \<le> 90) \<or> (97 \<le> n \<and> n \<le> 122) \<or> (48 \<le> n \<and> n \<le> 57) \<or> n = 95)"

text \<open>A field chain: a single dot is the cursor itself, \<open>.A.B\<close> is a path of field names.\<close>

definition parse_field :: "string \<Rightarrow> error + string list" where
  "parse_field s =
     (case s of
        [] \<Rightarrow> Inl (Error ''missing value for command'')
      | c # cs \<Rightarrow>
          if c \<noteq> CHR ''.'' then Inl (Error ''unsupported action'')
          else if cs = [] then Inr []
          else (let names = split_dot [] cs
                in if list_all (\<lambda>n. n \<noteq> [] \<and> list_all is_ident_char n) names
                   then Inr names else Inl (Error ''bad field name'')))"

definition parse_action :: "string \<Rightarrow> error + token" where
  "parse_action a =
     (let b = trim a
      in if b = ''end'' then Inr TokEnd
         else if take 6 b = ''range ''
         then (case parse_field (trim (drop 6 b)) of Inl err \<Rightarrow> Inl err | Inr f \<Rightarrow> Inr (TokRange f))
         else (case parse_field b of Inl err \<Rightarrow> Inl err | Inr f \<Rightarrow> Inr (TokField f)))"

fun tokens :: "item list \<Rightarrow> error + token list" where
  "tokens [] = Inr []"
| "tokens (ItemText t # its) =
     (case tokens its of Inl err \<Rightarrow> Inl err | Inr ts \<Rightarrow> Inr (TokText t # ts))"
| "tokens (ItemAction a # its) =
     (case parse_action a of
        Inl err \<Rightarrow> Inl err
      | Inr tok \<Rightarrow> (case tokens its of Inl err \<Rightarrow> Inl err | Inr ts \<Rightarrow> Inr (tok # ts)))"

text \<open>The tree is built with a stack of the open range actions: each entry holds the
  path of the range and the nodes (in reverse) that precede it at its level.\<close>

fun build :: "token list \<Rightarrow> node list \<Rightarrow> (string list \<times> node list) list \<Rightarrow> error + node list" where
  "build [] cur stack = (if stack = [] then Inr (rev cur) else Inl (Error ''unexpected EOF''))"
| "build (TokText t # ts) cur stack = build ts (TextNode t # cur) stack"
| "build (TokField f # ts) cur stack = build ts (FieldNode f # cur) stack"
| "build (TokRange f # ts) cur stack = build ts [] ((f, cur) # stack)"
| "build (TokEnd # ts) cur [] = Inl (Error ''unexpected end'')"
| "build (TokEnd # ts) cur ((f, outer) # stack) = build ts (RangeNode f (rev cur) # outer) stack"

definition template_Parse :: "string \<Rightarrow> error + node list" where
  "template_Parse text =
     (case lex False [] text of
        Inl err \<Rightarrow> Inl err
      | Inr its \<Rightarrow> (case tokens its of Inl err \<Rightarrow> Inl err | Inr ts \<Rightarrow> build ts [] []))"

text \<open>Printing follows fmt's default format: an integer in decimal, a string as it is,
  a slice and a struct as their elements between brackets.\<close>

definition digit_char :: "nat \<Rightarrow> char" where
  "digit_char n = char_of (48 + n)"

fun show_nat :: "nat \<Rightarrow> string" where
  "show_nat n = (if n < 10 then [digit_char n] else show_nat (n div 10) @ [digit_char (n mod 10)])"

declare show_nat.simps [simp del]

definition show_int :: "int \<Rightarrow> string" where
  "show_int i = (if i < 0 then CHR ''-'' # show_nat (nat (- i)) else show_nat (nat i))"

fun join_space :: "string list \<Rightarrow> string" where
  "join_space [] = []"
| "join_space [x] = x"
| "join_space (x # y # ys) = x @ '' '' @ join_space (y # ys)"

fun print_value :: "tvalue \<Rightarrow> string" where
  "print_value (VInt i) = show_int i"
| "print_value (VString s) = s"
| "print_value (VSlice vs) = ''['' @ join_space (map print_value vs) @ '']''"
| "print_value (VStruct fs) = ''{'' @ join_space (map (\<lambda>f. print_value (snd f)) fs) @ ''}''"

fun eval_field :: "string list \<Rightarrow> tvalue \<Rightarrow> error + tvalue" where
  "eval_field [] v = Inr v"
| "eval_field (name # names) (VStruct fs) =
     (case map_of fs name of
        None \<Rightarrow> Inl (Error (''cannot evaluate field '' @ name))
      | Some v \<Rightarrow> eval_field names v)"
| "eval_field (name # names) v = Inl (Error (''cannot evaluate field '' @ name))"

text \<open>Execution appends to the buffer. An error stops it, and what has been written
  stays in the buffer.\<close>

fun exec_node :: "node \<Rightarrow> tvalue \<Rightarrow> string \<Rightarrow> string \<times> error option"
  and exec_list :: "node list \<Rightarrow> tvalue \<Rightarrow> string \<Rightarrow> string \<times> error option"
  and exec_range :: "node list \<Rightarrow> tvalue list \<Rightarrow> string \<Rightarrow> string \<times> error option" where
  "exec_node (TextNode t) dot buf = (buf @ t, None)"
| "exec_node (FieldNode f) dot buf =
     (case eval_field f dot of
        Inl err \<Rightarrow> (buf, Some err)
      | Inr v \<Rightarrow> (buf @ print_value v, None))"
| "exec_node (RangeNode f body) dot buf =
     (case eval_field f dot of
        Inl err \<Rightarrow> (buf, Some err)
      | Inr (VSlice vs) \<Rightarrow> exec_range body vs buf
      | Inr v \<Rightarrow> (buf, Some (Error ''range cannot iterate'')))"
| "exec_list [] dot buf = (buf, None)"
| "exec_list (n # ns) dot buf =
     (case exec_node n dot buf of
        (buf1, Some err) \<Rightarrow> (buf1, Some err)
      | (buf1, None) \<Rightarrow> exec_list ns dot buf1)"
| "exec_range body [] buf = (buf, None)"
| "exec_range body (v # vs) buf =
     (case exec_list body v buf of
        (buf1, Some err) \<Rightarrow> (buf1, Some err)
      | (buf1, None) \<Rightarrow> exec_range body vs buf1)"

definition text_template :: "(node list) template_engine" where
  "text_template = \<lparr>Parse = template_Parse, Execute = exec_list\<rparr>"

subsection \<open>GenerateDockerOptions\<close>

record EngineConfigContext =
  DockerPort :: int
  ContextAuthOptions :: AuthOptions
  ContextEngineOptions :: EngineOptions

text \<open>The port is a Go int; nothing is computed with it, it is only printed, so the model
  takes an integer.

  The context as the template sees it: each struct with its Go field names.\<close>

definition reflect_AuthOptions :: "AuthOptions \<Rightarrow> tvalue" where
  "reflect_AuthOptions a =
     VStruct [(''CaCertRemotePath'', VString (CaCertRemotePath a)),
              (''ServerCertRemotePath'', VString (ServerCertRemotePath a)),
              (''ServerKeyRemotePath'', VString (ServerKeyRemotePath a))]"

definition reflect_EngineOptions :: "EngineOptions \<Rightarrow> tvalue" where
  "reflect_EngineOptions e =
     VStruct [(''StorageDriver'', VString (StorageDriver e)),
              (''Labels'', VSlice (map VString (Labels e))),
              (''InsecureRegistry'', VSlice (map VString (InsecureRegistry e))),
              (''RegistryMirror'', VSlice (map VString (RegistryMirror e))),
              (''ArbitraryFlags'', VSlice (map VString (ArbitraryFlags e)))]"

definition reflect_context :: "EngineConfigContext \<Rightarrow> tvalue" where
  "reflect_context c =
     VStruct [(''DockerPort'', VInt (DockerPort c)),
              (''AuthOptions'', reflect_AuthOptions (ContextAuthOptions c)),
              (''EngineOptions'', reflect_EngineOptions (ContextEngineOptions c))]"

definition engineConfigTmpl :: string where
  "engineConfigTmpl = ''\<newline>DOCKER_OPTS='-H tcp://0.0.0.0:{{.DockerPort}} -H unix:///var/run/docker.sock --storage-driver {{.EngineOptions.StorageDriver}} --tlsverify --tlscacert {{.AuthOptions.CaCertRemotePath}} --tlscert {{.AuthOptions.ServerCertRemotePath}} --tlskey {{.AuthOptions.ServerKeyRemotePath}} {{ range .EngineOptions.Labels }}--label {{.}} {{ end }}{{ range .EngineOptions.InsecureRegistry }}--insecure-registry {{.}} {{ end }}{{ range .EngineOptions.RegistryMirror }}--registry-mirror {{.}} {{ end }}{{ range .EngineOptions.ArbitraryFlags }}--{{.}} {{ end }}'\<newline>''"

text \<open>
  GenerateDockerOptions has a pointer receiver: the label it appends stays in the
  provisioner, so the function returns the provisioner next to its result. The error that
  Execute returns is not looked at; the buffer is taken as it is.
\<close>

definition GenerateDockerOptions_with ::
  "'t template_engine \<Rightarrow> int \<Rightarrow> provisioner \<Rightarrow> (error + DockerOptions) \<times> provisioner" where
  "GenerateDockerOptions_with tmpl dockerPort p =
     (let engineCfg = [];
          driverNameLabel = ''provider='' @ DriverName (Driver p);
          p1 = p\<lparr>EngineOptions :=
                 (EngineOptions p)\<lparr>Labels := Labels (EngineOptions p) @ [driverNameLabel]\<rparr>\<rparr>
      in case Parse tmpl engineConfigTmpl of
           Inl err \<Rightarrow> (Inl err, p1)
         | Inr t \<Rightarrow>
             (let engineConfigContext =
                    \<lparr>DockerPort = dockerPort,
                     ContextAuthOptions = AuthOptions p1,
                     ContextEngineOptions = EngineOptions p1\<rparr>
              in case Execute tmpl t (reflect_context engineConfigContext) engineCfg of
                   (engineCfg1, ignored) \<Rightarrow>
                     (Inr \<lparr>DockerEngineOptions = engineCfg1,
                           EngineOptionsPath = DaemonOptionsFile p1\<rparr>, p1)))"

definition GenerateDockerOptions :: "int \<Rightarrow> provisioner \<Rightarrow> (error + DockerOptions) \<times> provisioner" where
  "GenerateDockerOptions = GenerateDockerOptions_with text_template"

subsection \<open>The pipeline of Provision, step by step\<close>

text \<open>
  The steps that the specification lists for Provision (section 4.4), each as a function
  on the state, and the rule of the pipeline: the steps run in list order, the first one
  that fails ends the run with its error, and the state stays as that step left it.
\<close>

type_synonym 'w step = "'w pstate \<Rightarrow> error option \<times> 'w pstate"

fun run_steps :: "'w step list \<Rightarrow> 'w step" where
  "run_steps [] s = (None, s)"
| "run_steps (f # fs) s =
     (case f s of
        (Some err, s1) \<Rightarrow> (Some err, s1)
      | (None, s1) \<Rightarrow> run_steps fs s1)"

definition step_hostname :: "'w env \<Rightarrow> 'w step" where
  "step_hostname env s = SetHostname env (GetMachineName (Driver (prov s))) s"

definition step_hostname_file :: "'w env \<Rightarrow> 'w step" where
  "step_hostname_file env s = setHostnameHypriot env (GetMachineName (Driver (prov s))) s"

definition step_apt_transport :: "'w env \<Rightarrow> 'w step" where
  "step_apt_transport env = Package env ''apt-transport-https'' Install"

definition step_apt_repo :: "'w env \<Rightarrow> 'w step" where
  "step_apt_repo env = setHypriotAptRepo env"

definition step_queue_docker :: "'w env \<Rightarrow> 'w step" where
  "step_queue_docker env s =
     (case dockerDaemonInstalled env s of
        (installed, s1) \<Rightarrow>
          (None, if \<not> installed
                 then s1\<lparr>prov := (prov s1)\<lparr>Packages := Packages (prov s1) @ [''docker'']\<rparr>\<rparr>
                 else s1))"

definition step_packages :: "'w env \<Rightarrow> 'w step" where
  "step_packages env s = install_packages env (Packages (prov s)) s"

definition step_start_service :: "'w env \<Rightarrow> 'w step" where
  "step_start_service env s =
     (case dockerDaemonRunning env s of
        (running, s1) \<Rightarrow> if \<not> running then Service env ''docker'' Start s1 else (None, s1))"

definition step_wait_ready :: "'w env \<Rightarrow> 'w step" where
  "step_wait_ready env = WaitFor (wait_attempts env) (dockerDaemonResponding env)"

definition step_options_dir :: "'w env \<Rightarrow> 'w step" where
  "step_options_dir env = makeDockerOptionsDir env"

definition step_auth :: "'w env \<Rightarrow> 'w step" where
  "step_auth env s =
     (case setRemoteAuthOptions env s of
        (remoteAuth, s1) \<Rightarrow> ConfigureAuth env (s1\<lparr>prov := (prov s1)\<lparr>AuthOptions := remoteAuth\<rparr>\<rparr>))"

definition swarm_image :: "SwarmOptions \<Rightarrow> SwarmOptions" where
  "swarm_image swarmOptions =
     (if Image swarmOptions = ''swarm:latest''
      then swarmOptions\<lparr>Image := ''hypriot/rpi-swarm:latest''\<rparr>
      else swarmOptions)"

definition step_swarm :: "'w env \<Rightarrow> SwarmOptions \<Rightarrow> 'w step" where
  "step_swarm env swarmOptions s =
     configureSwarm env (swarm_image swarmOptions) (AuthOptions (prov s)) s"

definition pipeline :: "'w env \<Rightarrow> SwarmOptions \<Rightarrow> 'w step list" where
  "pipeline env swarmOptions =
     [step_hostname env, step_hostname_file env, step_apt_transport env, step_apt_repo env,
      step_queue_docker env, step_packages env, step_start_service env, step_wait_ready env,
      step_options_dir env, step_auth env, step_swarm env swarmOptions]"

text \<open>The calls that a run of \<open>f\<close> from state \<open>s\<close> adds to the trace.\<close>

definition issued :: "('w pstate \<Rightarrow> 'a \<times> 'w pstate) \<Rightarrow> 'w pstate \<Rightarrow> call list" where
  "issued f s = drop (length (trace s)) (trace (snd (f s)))"

subsection \<open>A fake remote host\<close>

text \<open>
  A host for concrete runs. Its world is the number of calls it has answered; the call
  with number \<open>k\<close> (counted from zero) fails and every other one succeeds. The remote
  auth paths are files of the options directory.
\<close>

definition fake_env :: "nat \<Rightarrow> nat env" where
  "fake_env k =
     \<lparr>ssh_run = (\<lambda>command n. (if n = k then Inl (Error command) else Inr [], Suc n)),
      set_hostname = (\<lambda>hostname p n. (if n = k then Some (Error ''hostname'') else None, p, Suc n)),
      make_docker_options_dir = (\<lambda>p n. (if n = k then Some (Error ''mkdir'') else None, p, Suc n)),
      set_remote_auth_options = (\<lambda>p n.
        ((AuthOptions p)\<lparr>CaCertRemotePath := DockerOptionsDir p @ ''/ca.pem'',
           ServerCertRemotePath := DockerOptionsDir p @ ''/server.pem'',
           ServerKeyRemotePath := DockerOptionsDir p @ ''/server-key.pem''\<rparr>, p, Suc n)),
      configure_auth = (\<lambda>p n. (if n = k then Some (Error ''auth'') else None, p, Suc n)),
      configure_swarm = (\<lambda>so ao p n. (if n = k then Some (Error ''swarm'') else None, p, Suc n)),
      wait_attempts = 3\<rparr>"

definition example_driver :: Driver where
  "example_driver = \<lparr>DriverName = ''virtualbox'', GetMachineName = ''pi1''\<rparr>"

definition example_state :: "nat pstate" where
  "example_state = \<lparr>prov = NewHypriotProvisioner example_driver, world = 0, trace = []\<rparr>"

definition example_swarm :: SwarmOptions where
  "example_swarm = \<lparr>Image = ''swarm:latest'', Membership = [''token://1234'']\<rparr>"

definition example_auth :: AuthOptions where
  "example_auth = \<lparr>CaCertRemotePath = '''', ServerCertRemotePath = '''', ServerKeyRemotePath = ''''\<rparr>"

definition example_engine :: EngineOptions where
  "example_engine =
     \<lparr>StorageDriver = '''', Labels = [''rack=a''], InsecureRegistry = [],
      RegistryMirror = [''https://mirror.local''], ArbitraryFlags = [''debug'', ''icc=false'']\<rparr>"

subsection \<open>What the template renders\<close>

text \<open>The tree that Parse builds from the text of the engine-config template.\<close>

definition engineConfigTree :: "node list" where
  "engineConfigTree =
     [TextNode ''\<newline>DOCKER_OPTS='-H tcp://0.0.0.0:'',
      FieldNode [''DockerPort''],
      TextNode '' -H unix:///var/run/docker.sock --storage-driver '',
      FieldNode [''EngineOptions'', ''StorageDriver''],
      TextNode '' --tlsverify --tlscacert '',
      FieldNode [''AuthOptions'', ''CaCertRemotePath''],
      TextNode '' --tlscert '',
      FieldNode [''AuthOptions'', ''ServerCertRemotePath''],
      TextNode '' --tlskey '',
      FieldNode [''AuthOptions'', ''ServerKeyRemotePath''],
      TextNode '' '',
      RangeNode [''EngineOptions'', ''Labels'']
        [TextNode ''--label '', FieldNode [], TextNode '' ''],
      RangeNode [''EngineOptions'', ''InsecureRegistry'']
        [TextNode ''--insecure-registry '', FieldNode [], TextNode '' ''],
      RangeNode [''EngineOptions'', ''RegistryMirror'']
        [TextNode ''--registry-mirror '', FieldNode [], TextNode '' ''],
      RangeNode [''EngineOptions'', ''ArbitraryFlags'']
        [TextNode ''--'', FieldNode [], TextNode '' ''],
      TextNode '''\<newline>'']"

text \<open>
  The renderer as the specification words it (section 4.6): the bind addresses with the
  port, the storage driver, the TLS flags with the three remote paths, and then one flag
  token for each entry of the labels, the insecure registries, the registry mirrors and
  the arbitrary flags, in list order, each token followed by one space.
\<close>

definition flag_tokens :: "EngineOptions \<Rightarrow> string list" where
  "flag_tokens e =
     map (\<lambda>l. ''--label '' @ l) (Labels e)
     @ map (\<lambda>r. ''--insecure-registry '' @ r) (InsecureRegistry e)
     @ map (\<lambda>m. ''--registry-mirror '' @ m) (RegistryMirror e)
     @ map (\<lambda>f. ''--'' @ f) (ArbitraryFlags e)"

definition spec_render :: "int \<Rightarrow> AuthOptions \<Rightarrow> EngineOptions \<Rightarrow> string" where
  "spec_render port a e =
     ''\<newline>DOCKER_OPTS='-H tcp://0.0.0.0:'' @ show_int port
     @ '' -H unix:///var/run/docker.sock --storage-driver '' @ StorageDriver e
     @ '' --tlsverify --tlscacert '' @ CaCertRemotePath a
     @ '' --tlscert '' @ ServerCertRemotePath a
     @ '' --tlskey '' @ ServerKeyRemotePath a @ '' ''
     @ concat (map (\<lambda>t. t @ '' '') (flag_tokens e))
     @ '''\<newline>''"

text \<open>The engine options as GenerateDockerOptions renders them: the stored ones with the
  provider label of the driver appended.\<close>

definition with_provider_label :: "provisioner \<Rightarrow> EngineOptions" where
  "with_provider_label p =
     (EngineOptions p)\<lparr>Labels := Labels (EngineOptions p) @ [''provider='' @ DriverName (Driver p)]\<rparr>"

section \<open>Properties\<close>

subsection \<open>Package and CompatibleWithHost\<close>

lemma Package_Upgrade_Install: "Package env name Upgrade = Package env name Install"
  by (rule ext) (simp add: Package_def)

lemma Package_Remove_trace:
  "trace (snd (Package env name Remove s)) =
     trace s @ [CallSSHCommand (''DEBIAN_FRONTEND=noninteractive sudo -E apt-get remove -y ''
        @ (if name = ''docker'' then ''docker-hypriot'' else name))]"
  by (simp add: Package_def SSHCommand_def Let_def split: prod.splits sum.splits)

lemma Package_Install_trace:
  "trace (snd (Package env name Install s)) =
     trace s @ CallSSHCommand ''sudo -E apt-get update'' #
       (if isl (fst (ssh_run env ''sudo -E apt-get update'' (world s))) then []
        else [CallSSHCommand (''DEBIAN_FRONTEND=noninteractive sudo -E apt-get install -y ''
                @ (if name = ''docker'' then ''docker-hypriot'' else name))])"
  by (simp add: Package_def SSHCommand_def Let_def split: prod.splits sum.splits)

lemma apt_command_not_generic:
  "''DEBIAN_FRONTEND=noninteractive sudo -E apt-get '' @ verb @ '' -y docker'' \<noteq>
   ''DEBIAN_FRONTEND=noninteractive sudo -E apt-get '' @ verb' @ '' -y docker-hypriot''"
proof
  assume "''DEBIAN_FRONTEND=noninteractive sudo -E apt-get '' @ verb @ '' -y docker'' =
          ''DEBIAN_FRONTEND=noninteractive sudo -E apt-get '' @ verb' @ '' -y docker-hypriot''"
  then have "last (verb @ '' -y docker'') = last (verb' @ '' -y docker-hypriot'')"
    by simp
  then show False by simp
qed

text \<open>
  Claim C10. For every package name, Package with Upgrade and Package with Install are the
  same operation: from the same state they return the same result and leave the same state.
  Both issue the same sequence of remote commands, which is the metadata refresh
  (apt-get update) followed, when the refresh succeeds, by the apt-get command with the
  verb install on the resolved package name.
\<close>

theorem Package_Upgrade_eq_Install:
  "Package env name Upgrade s = Package env name Install s
   \<and> issued (Package env name Upgrade) s =
       CallSSHCommand ''sudo -E apt-get update'' #
         (if isl (fst (ssh_run env ''sudo -E apt-get update'' (world s))) then []
          else [CallSSHCommand (''DEBIAN_FRONTEND=noninteractive sudo -E apt-get install -y ''
                  @ (if name = ''docker'' then ''docker-hypriot'' else name))])
   \<and> issued (Package env name Install) s =
       CallSSHCommand ''sudo -E apt-get update'' #
         (if isl (fst (ssh_run env ''sudo -E apt-get update'' (world s))) then []
          else [CallSSHCommand (''DEBIAN_FRONTEND=noninteractive sudo -E apt-get install -y ''
                  @ (if name = ''docker'' then ''docker-hypriot'' else name))])"
  by (simp add: issued_def Package_Install_trace Package_Upgrade_Install)

text \<open>
  Claim C4. For every package name, Package with Remove never issues the metadata refresh
  (apt-get update). Package with Install and with Upgrade always issue it, as their first
  command: the action command follows it when the refresh succeeds, and nothing follows
  when it fails.
\<close>

theorem Package_metadata_refresh:
  "CallSSHCommand ''sudo -E apt-get update'' \<notin> set (issued (Package env name Remove) s)
   \<and> issued (Package env name Install) s =
       CallSSHCommand ''sudo -E apt-get update'' #
         (if isl (fst (ssh_run env ''sudo -E apt-get update'' (world s))) then []
          else [CallSSHCommand (''DEBIAN_FRONTEND=noninteractive sudo -E apt-get install -y ''
                  @ (if name = ''docker'' then ''docker-hypriot'' else name))])
   \<and> issued (Package env name Upgrade) s =
       CallSSHCommand ''sudo -E apt-get update'' #
         (if isl (fst (ssh_run env ''sudo -E apt-get update'' (world s))) then []
          else [CallSSHCommand (''DEBIAN_FRONTEND=noninteractive sudo -E apt-get install -y ''
                  @ (if name = ''docker'' then ''docker-hypriot'' else name))])"
  by (simp add: issued_def Package_Remove_trace Package_Install_trace Package_Upgrade_Install)

text \<open>
  Claim C5. For every package action, each command that Package issues for the name docker
  is the metadata refresh or the apt-get action command on docker-hypriot; no apt-get
  action command on the generic name docker is issued, whatever its verb; and the action
  command on docker-hypriot is the last command issued whenever the action is Remove or
  the refresh succeeds.
\<close>

theorem Package_docker_alias:
  "(\<forall>c \<in> set (issued (Package env ''docker'' action) s).
      c = CallSSHCommand ''sudo -E apt-get update'' \<or>
      c = CallSSHCommand (''DEBIAN_FRONTEND=noninteractive sudo -E apt-get ''
            @ (case action of Install \<Rightarrow> ''install'' | Remove \<Rightarrow> ''remove'' | Upgrade \<Rightarrow> ''install'')
            @ '' -y docker-hypriot''))
   \<and> (\<forall>verb. CallSSHCommand (''DEBIAN_FRONTEND=noninteractive sudo -E apt-get '' @ verb @ '' -y docker'')
         \<notin> set (issued (Package env ''docker'' action) s))
   \<and> (action = Remove \<or> \<not> isl (fst (ssh_run env ''sudo -E apt-get update'' (world s))) \<longrightarrow>
        last (issued (Package env ''docker'' action) s) =
          CallSSHCommand (''DEBIAN_FRONTEND=noninteractive sudo -E apt-get ''
            @ (case action of Install \<Rightarrow> ''install'' | Remove \<Rightarrow> ''remove'' | Upgrade \<Rightarrow> ''install'')
            @ '' -y docker-hypriot''))"
proof (cases action)
  case Install
  have ne: "\<And>verb. ''DEBIAN_FRONTEND=noninteractive sudo -E apt-get '' @ verb @ '' -y docker'' \<noteq>
      ''DEBIAN_FRONTEND=noninteractive sudo -E apt-get install -y docker-hypriot''"
    using apt_command_not_generic [of _ "''install''"] by simp
  show ?thesis
    using ne by (simp add: Install issued_def Package_Install_trace)
next
  case Remove
  have ne: "\<And>verb. ''DEBIAN_FRONTEND=noninteractive sudo -E apt-get '' @ verb @ '' -y docker'' \<noteq>
      ''DEBIAN_FRONTEND=noninteractive sudo -E apt-get remove -y docker-hypriot''"
    using apt_command_not_generic [of _ "''remove''"] by simp
  show ?thesis
    using ne by (simp add: Remove issued_def Package_Remove_trace)
next
  case Upgrade
  have ne: "\<And>verb. ''DEBIAN_FRONTEND=noninteractive sudo -E apt-get '' @ verb @ '' -y docker'' \<noteq>
      ''DEBIAN_FRONTEND=noninteractive sudo -E apt-get install -y docker-hypriot''"
    using apt_command_not_generic [of _ "''install''"] by simp
  show ?thesis
    using ne by (simp add: Upgrade issued_def Package_Install_trace Package_Upgrade_Install)
qed

theorem Package_docker_alias_witness:
  "issued (Package (fake_env 7) ''docker'' Install) example_state =
     [CallSSHCommand ''sudo -E apt-get update'',
      CallSSHCommand ''DEBIAN_FRONTEND=noninteractive sudo -E apt-get install -y docker-hypriot'']
   \<and> \<not> isl (fst (ssh_run (fake_env 7) ''sudo -E apt-get update'' (world example_state)))
   \<and> last (issued (Package (fake_env 7) ''docker'' Install) example_state) =
       CallSSHCommand ''DEBIAN_FRONTEND=noninteractive sudo -E apt-get install -y docker-hypriot''"
  using Package_docker_alias [of "fake_env 7" Install example_state]
  by (simp add: issued_def Package_Install_trace fake_env_def example_state_def)

text \<open>
  Claim C3. CompatibleWithHost answers true exactly when the marker command
  (cat /etc/hypriot_release) succeeds and the ID of the host's OS release equals the
  OsReleaseID of the provisioner, which is raspbian for a provisioner made by
  NewHypriotProvisioner. A failing marker command gives the answer false; the result is a
  boolean, so no error reaches the caller.
\<close>

theorem CompatibleWithHost_iff:
  "fst (CompatibleWithHost env s) =
     (\<not> isl (fst (ssh_run env ''cat /etc/hypriot_release'' (world s)))
      \<and> ID (OsReleaseInfo (prov s)) = OsReleaseID (prov s))
   \<and> fst (CompatibleWithHost env (s\<lparr>prov := (NewHypriotProvisioner d)\<lparr>OsReleaseInfo := info\<rparr>\<rparr>)) =
     (\<not> isl (fst (ssh_run env ''cat /etc/hypriot_release'' (world s))) \<and> ID info = ''raspbian'')"
  by (simp add: CompatibleWithHost_def SSHCommand_def NewHypriotProvisioner_def
      split: prod.splits sum.splits)

subsection \<open>The order of the pipeline\<close>

lemma run_steps_first_failure:
  "(\<exists>s'. run_steps fs s = (None, s'))
   \<or> (\<exists>k sk err sk'. k < length fs \<and> run_steps (take k fs) s = (None, sk)
         \<and> (fs ! k) sk = (Some err, sk') \<and> run_steps fs s = (Some err, sk'))"
proof (induction fs arbitrary: s)
  case Nil
  show ?case by simp
next
  case (Cons f fs)
  obtain r s1 where f: "f s = (r, s1)" by (cases "f s")
  show ?case
  proof (cases r)
    case (Some err)
    have "0 < length (f # fs) \<and> run_steps (take 0 (f # fs)) s = (None, s)
        \<and> ((f # fs) ! 0) s = (Some err, s1) \<and> run_steps (f # fs) s = (Some err, s1)"
      using f Some by simp
    then show ?thesis by blast
  next
    case None
    from Cons.IH [of s1] show ?thesis
    proof
      assume "\<exists>s'. run_steps fs s1 = (None, s')"
      then show ?thesis using f None by simp
    next
      assume "\<exists>k sk err sk'. k < length fs \<and> run_steps (take k fs) s1 = (None, sk)
         \<and> (fs ! k) sk = (Some err, sk') \<and> run_steps fs s1 = (Some err, sk')"
      then obtain k sk err sk' where k: "k < length fs" "run_steps (take k fs) s1 = (None, sk)"
        "(fs ! k) sk = (Some err, sk')" "run_steps fs s1 = (Some err, sk')" by blast
      have "Suc k < length (f # fs) \<and> run_steps (take (Suc k) (f # fs)) s = (None, sk)
        \<and> ((f # fs) ! Suc k) sk = (Some err, sk') \<and> run_steps (f # fs) s = (Some err, sk')"
        using k f None by simp
      then show ?thesis by blast
    qed
  qed
qed

lemma run_steps_queue_docker:
  "run_steps (step_queue_docker env # fs) s =
     (case dockerDaemonInstalled env s of
        (installed, s1) \<Rightarrow>
          run_steps fs (if \<not> installed
                 then s1\<lparr>prov := (prov s1)\<lparr>Packages := Packages (prov s1) @ [''docker'']\<rparr>\<rparr>
                 else s1))"
  by (simp add: step_queue_docker_def split: prod.splits)

lemma run_steps_start_service:
  "run_steps (step_start_service env # fs) s =
     (case dockerDaemonRunning env s of
        (running, s1) \<Rightarrow>
          (case (if \<not> running then Service env ''docker'' Start s1 else (None, s1)) of
             (Some err, s2) \<Rightarrow> (Some err, s2)
           | (None, s2) \<Rightarrow> run_steps fs s2))"
  by (simp add: step_start_service_def split: prod.splits)

lemma run_steps_auth:
  "run_steps (step_auth env # fs) s =
     (case setRemoteAuthOptions env s of
        (remoteAuth, s1) \<Rightarrow>
          (case ConfigureAuth env (s1\<lparr>prov := (prov s1)\<lparr>AuthOptions := remoteAuth\<rparr>\<rparr>) of
             (Some err, s2) \<Rightarrow> (Some err, s2)
           | (None, s2) \<Rightarrow> run_steps fs s2))"
  by (simp add: step_auth_def split: prod.splits)

lemma run_steps_simple:
  "run_steps (step_hostname env # fs) s =
     (case SetHostname env (GetMachineName (Driver (prov s))) s of
        (Some err, s1) \<Rightarrow> (Some err, s1) | (None, s1) \<Rightarrow> run_steps fs s1)"
  "run_steps (step_hostname_file env # fs) s =
     (case setHostnameHypriot env (GetMachineName (Driver (prov s))) s of
        (Some err, s1) \<Rightarrow> (Some err, s1) | (None, s1) \<Rightarrow> run_steps fs s1)"
  "run_steps (step_apt_transport env # fs) s =
     (case Package env ''apt-transport-https'' Install s of
        (Some err, s1) \<Rightarrow> (Some err, s1) | (None, s1) \<Rightarrow> run_steps fs s1)"
  "run_steps (step_apt_repo env # fs) s =
     (case setHypriotAptRepo env s of
        (Some err, s1) \<Rightarrow> (Some err, s1) | (None, s1) \<Rightarrow> run_steps fs s1)"
  "run_steps (step_packages env # fs) s =
     (case install_packages env (Packages (prov s)) s of
        (Some err, s1) \<Rightarrow> (Some err, s1) | (None, s1) \<Rightarrow> run_steps fs s1)"
  "run_steps (step_wait_ready env # fs) s =
     (case WaitFor (wait_attempts env) (dockerDaemonResponding env) s of
        (Some err, s1) \<Rightarrow> (Some err, s1) | (None, s1) \<Rightarrow> run_steps fs s1)"
  "run_steps (step_options_dir env # fs) s =
     (case makeDockerOptionsDir env s of
        (Some err, s1) \<Rightarrow> (Some err, s1) | (None, s1) \<Rightarrow> run_steps fs s1)"
  "run_steps [step_swarm env so] s =
     (case configureSwarm env (if Image so = ''swarm:latest''
                           then so\<lparr>Image := ''hypriot/rpi-swarm:latest''\<rparr>
                           else so) (AuthOptions (prov s)) s of
        (Some err, s1) \<Rightarrow> (Some err, s1) | (None, s1) \<Rightarrow> (None, s1))"
  by (simp_all only: run_steps.simps step_hostname_def step_hostname_file_def step_apt_transport_def
      step_apt_repo_def step_packages_def step_wait_ready_def step_options_dir_def step_swarm_def
      swarm_image_def)

lemma Provision_run_steps:
  "Provision env so ao eo s =
     run_steps (pipeline env so) (s\<lparr>prov := store_options so ao eo (prov s)\<rparr>)"
  unfolding Provision_def pipeline_def Let_def
  by (simp only: run_steps_simple run_steps_queue_docker run_steps_start_service run_steps_auth)

lemma run_steps_append:
  "run_steps (fs @ gs) s =
     (case run_steps fs s of
        (Some err, s1) \<Rightarrow> (Some err, s1)
      | (None, s1) \<Rightarrow> run_steps gs s1)"
  by (induction fs arbitrary: s) (simp_all split: prod.splits option.splits)

text \<open>
  Claim C2. Provision runs the eleven steps of \<open>pipeline\<close> (hostname, hostname file,
  apt-transport-https, APT repository, conditional queueing of docker, package installs,
  conditional service start, readiness wait, options directory, auth, swarm) in that order
  on the state that holds the stored options. Every run is of one of two kinds: all steps
  succeed and Provision returns no error, or the first \<open>k\<close> steps succeed one after the
  other, step \<open>k\<close> fails, and Provision returns the error of that step with the state,
  and so the trace of calls, exactly as that step left it: no later step runs.
\<close>

theorem Provision_pipeline_order:
  "Provision env so ao eo s =
     run_steps (pipeline env so) (s\<lparr>prov := store_options so ao eo (prov s)\<rparr>)
   \<and> ((\<exists>s'. Provision env so ao eo s = (None, s'))
      \<or> (\<exists>k sk err sk'. k < length (pipeline env so)
            \<and> run_steps (take k (pipeline env so)) (s\<lparr>prov := store_options so ao eo (prov s)\<rparr>)
                = (None, sk)
            \<and> (pipeline env so ! k) sk = (Some err, sk')
            \<and> Provision env so ao eo s = (Some err, sk')))"
  using run_steps_first_failure [of "pipeline env so" "s\<lparr>prov := store_options so ao eo (prov s)\<rparr>"]
  by (simp only: Provision_run_steps)

lemmas fake_run =
  fake_env_def example_state_def example_swarm_def example_auth_def example_engine_def
  example_driver_def NewHypriotProvisioner_def store_options_def SetHostname_def
  collaborator_def setHostnameHypriot_def SSHCommand_def Package_def setHypriotAptRepo_def
  dockerDaemonInstalled_def dockerDaemonRunning_def Service_def dockerDaemonResponding_def
  makeDockerOptionsDir_def setRemoteAuthOptions_def ConfigureAuth_def configureSwarm_def
  Let_def numeral_3_eq_3

lemmas step_defs =
  pipeline_def step_hostname_def step_hostname_file_def step_apt_transport_def
  step_apt_repo_def step_queue_docker_def step_packages_def step_start_service_def
  step_wait_ready_def step_options_dir_def step_auth_def step_swarm_def swarm_image_def

theorem Provision_pipeline_order_witness:
  "Provision (fake_env 4) example_swarm example_auth example_engine example_state =
     run_steps (pipeline (fake_env 4) example_swarm)
       (example_state\<lparr>prov := store_options example_swarm example_auth example_engine
          (prov example_state)\<rparr>)
   \<and> fst (Provision (fake_env 4) example_swarm example_auth example_engine example_state) =
       Some (Error ''if [ ! -f /etc/apt/sources.list.d/hypriot.list ] || grep -q repository.hypriot.com /etc/apt/sources.list.d/hypriot.list; then (curl https://packagecloud.io/gpg.key | sudo apt-key add -); echo 'deb https://packagecloud.io/Hypriot/Schatzkiste/debian/ wheezy main' | sudo tee /etc/apt/sources.list.d/hypriot.list; fi'')
   \<and> trace (snd (Provision (fake_env 4) example_swarm example_auth example_engine example_state)) =
       [CallSetHostname ''pi1'',
        CallSSHCommand ''if [ -f /boot/occidentalis.txt ]; then sudo sed -i 's/^hostname.*=.*/hostname=pi1/g' /boot/occidentalis.txt; fi'',
        CallSSHCommand ''sudo -E apt-get update'',
        CallSSHCommand ''DEBIAN_FRONTEND=noninteractive sudo -E apt-get install -y apt-transport-https'',
        CallSSHCommand ''if [ ! -f /etc/apt/sources.list.d/hypriot.list ] || grep -q repository.hypriot.com /etc/apt/sources.list.d/hypriot.list; then (curl https://packagecloud.io/gpg.key | sudo apt-key add -); echo 'deb https://packagecloud.io/Hypriot/Schatzkiste/debian/ wheezy main' | sudo tee /etc/apt/sources.list.d/hypriot.list; fi'']"
proof -
  have run: "Provision (fake_env 4) example_swarm example_auth example_engine example_state =
     run_steps (pipeline (fake_env 4) example_swarm)
       (example_state\<lparr>prov := store_options example_swarm example_auth example_engine
          (prov example_state)\<rparr>)"
    using Provision_pipeline_order
      [of "fake_env 4" example_swarm example_auth example_engine example_state]
    by (rule conjunct1)
  show ?thesis
    unfolding run by (simp add: fake_run step_defs)
qed

subsection \<open>The swarm step\<close>

text \<open>
  Claim C8. Take a run of Provision in which the steps up to the options directory
  succeed, setRemoteAuthOptions returns the resolved auth options, and ConfigureAuth
  succeeds and leaves the auth options of the provisioner as they were stored. Then
  Provision ends with the call of configureSwarm, and returns what it returns. The swarm
  options of that call are the caller's, with the image replaced by
  hypriot/rpi-swarm:latest when it is swarm:latest and kept otherwise; the auth options of
  that call are the resolved ones.
\<close>

theorem Provision_swarm_step:
  assumes "run_steps (take 9 (pipeline env so)) (s\<lparr>prov := store_options so ao eo (prov s)\<rparr>)
             = (None, s11)"
      and "setRemoteAuthOptions env s11 = (resolved, s12)"
      and "ConfigureAuth env (s12\<lparr>prov := (prov s12)\<lparr>AuthOptions := resolved\<rparr>\<rparr>) = (None, s14)"
      and "AuthOptions (prov s14) = resolved"
  shows "Provision env so ao eo s =
           configureSwarm env
             (so\<lparr>Image := (if Image so = ''swarm:latest'' then ''hypriot/rpi-swarm:latest''
                            else Image so)\<rparr>) resolved s14
         \<and> trace (snd (Provision env so ao eo s)) =
             trace s14 @ [CallConfigureSwarm
               (so\<lparr>Image := (if Image so = ''swarm:latest'' then ''hypriot/rpi-swarm:latest''
                              else Image so)\<rparr>) resolved]"
proof -
  have split: "pipeline env so = take 9 (pipeline env so) @ [step_auth env, step_swarm env so]"
    by (simp add: pipeline_def)
  have image: "so\<lparr>Image := (if Image so = ''swarm:latest'' then ''hypriot/rpi-swarm:latest''
                            else Image so)\<rparr> = swarm_image so"
    by (simp add: swarm_image_def)
  have "Provision env so ao eo s =
          run_steps [step_auth env, step_swarm env so] s11"
    using assms(1)
    by (subst Provision_run_steps, subst split, subst run_steps_append) simp
  also have "\<dots> = run_steps [step_swarm env so] s14"
    using assms(2,3) by (simp add: step_auth_def)
  also have "\<dots> = configureSwarm env (swarm_image so) resolved s14"
    using assms(4) by (simp add: step_swarm_def split: prod.splits option.splits)
  finally have eq: "Provision env so ao eo s = configureSwarm env (swarm_image so) resolved s14" .
  have "trace (snd (configureSwarm env (swarm_image so) resolved s14)) =
          trace s14 @ [CallConfigureSwarm (swarm_image so) resolved]"
    by (simp add: configureSwarm_def collaborator_def split: prod.splits)
  with eq show ?thesis by (simp only: image)
qed

theorem Provision_swarm_step_witness:
  "last (trace (snd (Provision (fake_env 100) example_swarm example_auth example_engine
       example_state))) =
     CallConfigureSwarm
       \<lparr>Image = ''hypriot/rpi-swarm:latest'', Membership = [''token://1234'']\<rparr>
       \<lparr>CaCertRemotePath = ''/etc/docker/ca.pem'',
        ServerCertRemotePath = ''/etc/docker/server.pem'',
        ServerKeyRemotePath = ''/etc/docker/server-key.pem''\<rparr>"
proof -
  let ?env = "fake_env 100"
  let ?s0 = "example_state\<lparr>prov := store_options example_swarm example_auth example_engine
          (prov example_state)\<rparr>"
  let ?s11 = "snd (run_steps (take 9 (pipeline ?env example_swarm)) ?s0)"
  let ?resolved = "fst (setRemoteAuthOptions ?env ?s11)"
  let ?s12 = "snd (setRemoteAuthOptions ?env ?s11)"
  let ?s14 = "snd (ConfigureAuth ?env (?s12\<lparr>prov := (prov ?s12)\<lparr>AuthOptions := ?resolved\<rparr>\<rparr>))"
  have h1: "run_steps (take 9 (pipeline ?env example_swarm)) ?s0 = (None, ?s11)"
    by (simp add: fake_run step_defs)
  have h2: "setRemoteAuthOptions ?env ?s11 = (?resolved, ?s12)"
    by simp
  have h3: "ConfigureAuth ?env (?s12\<lparr>prov := (prov ?s12)\<lparr>AuthOptions := ?resolved\<rparr>\<rparr>)
              = (None, ?s14)"
    by (simp add: fake_run step_defs)
  have h4: "AuthOptions (prov ?s14) = ?resolved"
    by (simp add: fake_run step_defs)
  have r: "?resolved = \<lparr>CaCertRemotePath = ''/etc/docker/ca.pem'',
        ServerCertRemotePath = ''/etc/docker/server.pem'',
        ServerKeyRemotePath = ''/etc/docker/server-key.pem''\<rparr>"
    by (simp add: fake_run step_defs)
  have t: "trace (snd (Provision ?env example_swarm example_auth example_engine example_state)) =
      trace ?s14 @ [CallConfigureSwarm
        (example_swarm\<lparr>Image := (if Image example_swarm = ''swarm:latest''
           then ''hypriot/rpi-swarm:latest'' else Image example_swarm)\<rparr>) ?resolved]"
    using Provision_swarm_step [OF h1 h2 h3 h4] by (rule conjunct2)
  have "last (trace (snd (Provision ?env example_swarm example_auth example_engine
      example_state))) =
      CallConfigureSwarm
        (example_swarm\<lparr>Image := (if Image example_swarm = ''swarm:latest''
           then ''hypriot/rpi-swarm:latest'' else Image example_swarm)\<rparr>) ?resolved"
    by (simp only: t last_snoc)
  then show ?thesis
    by (simp only: r) (simp add: example_swarm_def)
qed

subsection \<open>GenerateDockerOptions\<close>

lemma parse_engineConfigTmpl: "template_Parse engineConfigTmpl = Inr engineConfigTree"
  by code_simp

lemma exec_range_strings:
  "exec_range [TextNode a, FieldNode [], TextNode b] (map VString xs) buf =
     (buf @ concat (map (\<lambda>x. a @ x @ b) xs), None)"
  by (induction xs arbitrary: buf) simp_all

lemma exec_engineConfigTree:
  "exec_list engineConfigTree
     (reflect_context \<lparr>DockerPort = port, ContextAuthOptions = a, ContextEngineOptions = e\<rparr>) [] =
     (spec_render port a e, None)"
  by (simp add: engineConfigTree_def reflect_context_def reflect_AuthOptions_def
      reflect_EngineOptions_def exec_range_strings spec_render_def flag_tokens_def
      map_concat comp_def)

lemma GenerateDockerOptions_result:
  "GenerateDockerOptions port p =
     (Inr \<lparr>DockerEngineOptions = spec_render port (AuthOptions p) (with_provider_label p),
           EngineOptionsPath = DaemonOptionsFile p\<rparr>,
      p\<lparr>EngineOptions := with_provider_label p\<rparr>)"
  by (simp add: GenerateDockerOptions_def GenerateDockerOptions_with_def text_template_def
      parse_engineConfigTmpl exec_engineConfigTree with_provider_label_def Let_def)

text \<open>
  Claim C7, as the code has it. For every port and every provisioner, GenerateDockerOptions
  succeeds and its text is the fixed head with the port, the storage driver and the three
  TLS paths, followed by one \<open>--label\<close> token for each stored label and then one more
  \<open>--label\<close> token for the provider label that the function appends, one
  \<open>--insecure-registry\<close> token for each insecure registry, one \<open>--registry-mirror\<close>
  token for each mirror and one \<open>--\<close> token for each arbitrary flag, every group in list
  order and every token followed by one space.
\<close>

theorem GenerateDockerOptions_text:
  "fst (GenerateDockerOptions port p) =
     Inr \<lparr>DockerEngineOptions =
            ''\<newline>DOCKER_OPTS='-H tcp://0.0.0.0:'' @ show_int port
            @ '' -H unix:///var/run/docker.sock --storage-driver ''
            @ StorageDriver (EngineOptions p)
            @ '' --tlsverify --tlscacert '' @ CaCertRemotePath (AuthOptions p)
            @ '' --tlscert '' @ ServerCertRemotePath (AuthOptions p)
            @ '' --tlskey '' @ ServerKeyRemotePath (AuthOptions p) @ '' ''
            @ concat (map (\<lambda>l. ''--label '' @ l @ '' '')
                (Labels (EngineOptions p) @ [''provider='' @ DriverName (Driver p)]))
            @ concat (map (\<lambda>r. ''--insecure-registry '' @ r @ '' '')
                (InsecureRegistry (EngineOptions p)))
            @ concat (map (\<lambda>m. ''--registry-mirror '' @ m @ '' '')
                (RegistryMirror (EngineOptions p)))
            @ concat (map (\<lambda>f. ''--'' @ f @ '' '') (ArbitraryFlags (EngineOptions p)))
            @ '''\<newline>'',
          EngineOptionsPath = DaemonOptionsFile p\<rparr>"
  by (simp add: GenerateDockerOptions_result spec_render_def flag_tokens_def
      with_provider_label_def comp_def)

lemma show_int_2376: "show_int 2376 = ''2376''"
  by code_simp

text \<open>
  The claim C7 as it is written fails: it asks for exactly one \<open>--label\<close> token for each
  label of the input, so for none when the label list is empty. The provisioner of
  NewHypriotProvisioner has no label, and its text has one \<open>--label\<close> token, the provider
  label; the text is not the one with a token for each entry of the input lists and no
  other.
\<close>

theorem GenerateDockerOptions_label_counterexample:
  "Labels (EngineOptions (NewHypriotProvisioner example_driver)) = []
   \<and> map_sum id DockerEngineOptions
       (fst (GenerateDockerOptions 2376 (NewHypriotProvisioner example_driver))) =
     Inr ''\<newline>DOCKER_OPTS='-H tcp://0.0.0.0:2376 -H unix:///var/run/docker.sock --storage-driver  --tlsverify --tlscacert  --tlscert  --tlskey  --label provider=virtualbox '\<newline>''
   \<and> map_sum id DockerEngineOptions
       (fst (GenerateDockerOptions 2376 (NewHypriotProvisioner example_driver))) \<noteq>
     Inr (spec_render 2376 (AuthOptions (NewHypriotProvisioner example_driver))
            (EngineOptions (NewHypriotProvisioner example_driver)))"
  by (simp add: GenerateDockerOptions_result spec_render_def flag_tokens_def
      with_provider_label_def NewHypriotProvisioner_def example_driver_def show_int_2376)

text \<open>
  Claim C6. After Provision has stored the engine options, the stored storage driver is
  overlay when the input has the empty string and the input's value otherwise, and the
  text that GenerateDockerOptions renders from that provisioner has this value right after
  \<open>--storage-driver\<close>.
\<close>

theorem storage_driver_default:
  "StorageDriver (EngineOptions (store_options so ao eo p)) =
     (if StorageDriver eo = [] then ''overlay'' else StorageDriver eo)
   \<and> (\<exists>rest. map_sum id DockerEngineOptions
         (fst (GenerateDockerOptions port (store_options so ao eo p))) =
       Inr (''\<newline>DOCKER_OPTS='-H tcp://0.0.0.0:'' @ show_int port
            @ '' -H unix:///var/run/docker.sock --storage-driver ''
            @ (if StorageDriver eo = [] then ''overlay'' else StorageDriver eo)
            @ '' --tlsverify '' @ rest))"
proof -
  have sd: "StorageDriver (EngineOptions (store_options so ao eo p)) =
      (if StorageDriver eo = [] then ''overlay'' else StorageDriver eo)"
    by (simp add: store_options_def Let_def)
  have "StorageDriver (with_provider_label (store_options so ao eo p)) =
      (if StorageDriver eo = [] then ''overlay'' else StorageDriver eo)"
    using sd by (simp add: with_provider_label_def)
  then have "\<exists>rest. spec_render port (AuthOptions (store_options so ao eo p))
        (with_provider_label (store_options so ao eo p)) =
      ''\<newline>DOCKER_OPTS='-H tcp://0.0.0.0:'' @ show_int port
            @ '' -H unix:///var/run/docker.sock --storage-driver ''
            @ (if StorageDriver eo = [] then ''overlay'' else StorageDriver eo)
            @ '' --tlsverify '' @ rest"
    by (simp add: spec_render_def)
  then show ?thesis
    using sd by (simp add: GenerateDockerOptions_result)
qed

text \<open>
  Claim C1, as the code has it. The result of GenerateDockerOptions depends on the port
  and on four fields of the provisioner: two provisioners with the same driver, auth
  options, engine options and daemon options file give the same result for the same port.
  The call leaves the provider label in the engine options of the provisioner, so the
  provisioner after a call is not the one before it.
\<close>

theorem GenerateDockerOptions_deterministic:
  "(Driver p = Driver q \<and> AuthOptions p = AuthOptions q \<and> EngineOptions p = EngineOptions q
      \<and> DaemonOptionsFile p = DaemonOptionsFile q
      \<longrightarrow> fst (GenerateDockerOptions port p) = fst (GenerateDockerOptions port q))
   \<and> snd (GenerateDockerOptions port p) =
       p\<lparr>EngineOptions := (EngineOptions p)\<lparr>Labels :=
           Labels (EngineOptions p) @ [''provider='' @ DriverName (Driver p)]\<rparr>\<rparr>"
  by (simp add: GenerateDockerOptions_result with_provider_label_def)

theorem GenerateDockerOptions_deterministic_witness:
  "Driver (NewHypriotProvisioner example_driver)
     = Driver ((NewHypriotProvisioner example_driver)\<lparr>Packages := [''curl'']\<rparr>)
   \<and> NewHypriotProvisioner example_driver
     \<noteq> (NewHypriotProvisioner example_driver)\<lparr>Packages := [''curl'']\<rparr>
   \<and> fst (GenerateDockerOptions 2376 (NewHypriotProvisioner example_driver)) =
     fst (GenerateDockerOptions 2376 ((NewHypriotProvisioner example_driver)\<lparr>Packages := [''curl'']\<rparr>))"
  using GenerateDockerOptions_deterministic
    [of "NewHypriotProvisioner example_driver"
        "(NewHypriotProvisioner example_driver)\<lparr>Packages := [''curl'']\<rparr>" 2376]
  by (simp add: NewHypriotProvisioner_def)

text \<open>
  The claim C1 as it is written fails: a second call on the same provisioner, with the
  same port and nothing else changed, returns another text than the first, since the
  first call has left its provider label in the provisioner.
\<close>

theorem GenerateDockerOptions_twice_counterexample:
  "fst (GenerateDockerOptions 2376
         (snd (GenerateDockerOptions 2376 (NewHypriotProvisioner example_driver))))
   \<noteq> fst (GenerateDockerOptions 2376 (NewHypriotProvisioner example_driver))"
  by (simp add: GenerateDockerOptions_result spec_render_def flag_tokens_def
      with_provider_label_def NewHypriotProvisioner_def example_driver_def)

lemma GenerateDockerOptions_returns_Parse_error:
  "Parse tmpl engineConfigTmpl = Inl err \<Longrightarrow>
     fst (GenerateDockerOptions_with tmpl port p) = Inl err"
  by (simp add: GenerateDockerOptions_with_def Let_def)

text \<open>
  On the engine-config template the library does not fail: for every port and every
  provisioner Parse accepts the text, Execute writes the whole text and reports no error,
  and GenerateDockerOptions returns options and no error.
\<close>

lemma GenerateDockerOptions_never_fails:
  "\<not> isl (template_Parse engineConfigTmpl)
   \<and> snd (exec_list engineConfigTree
         (reflect_context \<lparr>DockerPort = port, ContextAuthOptions = AuthOptions p,
            ContextEngineOptions = with_provider_label p\<rparr>) []) = None
   \<and> \<not> isl (fst (GenerateDockerOptions port p))"
  by (simp add: parse_engineConfigTmpl GenerateDockerOptions_result exec_engineConfigTree)

end
